theory Spec2Isabelle
  imports Complex_Main
begin

section \<open>Data model\<close>

text \<open>
  A pandas DataFrame is kept row-wise: the ordered column index (name and dtype of every
  column) and the list of rows, every row holding one cell per column. A numeric cell
  holds a number or the missing marker (pandas' NaN); a text cell holds a string or the
  missing marker. A floating-point result is a finite number, one of the two infinities
  or NaN.

  The module defines each of its functions twice. The second definitions (lines 157 to
  319, with logging and \<^verbatim>\<open>try\<close> blocks) replace the first ones before \<^verbatim>\<open>main\<close>
  is called, and they are the ones embedded here.
\<close>

datatype dtype = Numeric | Object | Category | Other

datatype cell = Num real | Txt string | NA

record dataframe =
  columns :: "(string \<times> dtype) list"
  rows :: "cell list list"

datatype fl = Fin real | PInf | NInf | NaN

type_synonym moments = "fl \<times> fl \<times> fl \<times> fl"

datatype exn =
    KeyError string
  | TypeError string
  | AttributeError string
  | FileNotFoundError string
  | ParserError string
  | OtherError string

datatype level = Info | Warning | Error

datatype chart = Relational | Statistical | Categorical | Scatter | Heatmap | Bar

datatype diag = Describe | Head | Corr

text \<open>
  What a run does besides returning: lines printed, records handed to the logger, the
  seaborn call that draws a chart (with the columns it is given), image files saved.
  The line of the four moments is kept with its numbers, the two-decimal formatting of
  a float not being modelled; likewise the three preprocessing tables.
\<close>

datatype event =
    Print string
  | PrintDiag diag
  | PrintMoments fl fl fl fl
  | Log level string
  | Render chart "string list"
  | Saved string

text \<open>A computation yields the events it caused and returns a value or raises.\<close>

type_synonym 'a res = "event list \<times> (exn + 'a)"

definition ret :: "'a \<Rightarrow> 'a res" where
  "ret a = ([], Inr a)"

definition emit :: "event \<Rightarrow> unit res" where
  "emit e = ([e], Inr ())"

definition raise :: "exn \<Rightarrow> 'a res" where
  "raise e = ([], Inl e)"

definition bind :: "'a res \<Rightarrow> ('a \<Rightarrow> 'b res) \<Rightarrow> 'b res" where
  "bind m f =
     (case m of
        (es, Inl e) \<Rightarrow> (es, Inl e)
      | (es, Inr a) \<Rightarrow> (case f a of (es', r) \<Rightarrow> (es @ es', r)))"

definition seq :: "unit res \<Rightarrow> 'a res \<Rightarrow> 'a res" where
  "seq m k = bind m (\<lambda>_. k)"

text \<open>\<^verbatim>\<open>try: body except Exception as e: handler(e)\<close>\<close>

definition try_except :: "'a res \<Rightarrow> (exn \<Rightarrow> 'a res) \<Rightarrow> 'a res" where
  "try_except body handler =
     (case body of
        (es, Inl e) \<Rightarrow> (case handler e of (es', r) \<Rightarrow> (es @ es', r))
      | (es, Inr a) \<Rightarrow> (es, Inr a))"

definition quoted :: "string \<Rightarrow> string" where
  "quoted s = [CHR 0x27] @ s @ [CHR 0x27]"

fun exn_str :: "exn \<Rightarrow> string" where
  "exn_str (KeyError k) = quoted k"
| "exn_str (TypeError m) = m"
| "exn_str (AttributeError m) = m"
| "exn_str (FileNotFoundError m) = m"
| "exn_str (ParserError m) = m"
| "exn_str (OtherError m) = m"

definition events :: "'a res \<Rightarrow> event list" where
  "events r = fst r"

definition outcome :: "'a res \<Rightarrow> exn + 'a" where
  "outcome r = snd r"

definition returns :: "'a res \<Rightarrow> bool" where
  "returns r = (case snd r of Inl e \<Rightarrow> False | Inr a \<Rightarrow> True)"

definition saved_files :: "event list \<Rightarrow> string list" where
  "saved_files es = concat (map (\<lambda>e. case e of Saved f \<Rightarrow> [f] | _ \<Rightarrow> []) es)"

definition logged :: "level \<Rightarrow> event list \<Rightarrow> string list" where
  "logged l es =
     concat (map (\<lambda>e. case e of Log l' m \<Rightarrow> (if l' = l then [m] else []) | _ \<Rightarrow> []) es)"

section \<open>The report: \<^verbatim>\<open>writing\<close>\<close>

text \<open>Comparisons of a float with zero; every comparison with NaN is false.\<close>

fun gt0 :: "fl \<Rightarrow> bool" where
  "gt0 (Fin x) = (0 < x)"
| "gt0 PInf = True"
| "gt0 NInf = False"
| "gt0 NaN = False"

fun lt0 :: "fl \<Rightarrow> bool" where
  "lt0 (Fin x) = (x < 0)"
| "lt0 PInf = False"
| "lt0 NInf = True"
| "lt0 NaN = False"

definition skew_desc :: "fl \<Rightarrow> string" where
  "skew_desc s =
     (if gt0 s then ''Right-skewed'' else if lt0 s then ''Left-skewed'' else ''Symmetrical'')"

definition kurtosis_desc :: "fl \<Rightarrow> string" where
  "kurtosis_desc k =
     (if gt0 k then ''Leptokurtic'' else if lt0 k then ''Platykurtic'' else ''Mesokurtic'')"

text \<open>
  Subscripting the argument: a tuple gives its components, \<^verbatim>\<open>None[0]\<close> raises
  TypeError.
\<close>

definition subscript :: "moments option \<Rightarrow> moments res" where
  "subscript m =
     (case m of
        None \<Rightarrow> raise (TypeError (quoted ''NoneType'' @ '' object is not subscriptable''))
      | Some t \<Rightarrow> ret t)"

definition writing :: "moments option \<Rightarrow> string \<Rightarrow> unit res" where
  "writing moments col =
     try_except
       (seq (emit (Print (''For the attribute '' @ col @ '':'')))
         (bind (subscript moments) (\<lambda>(m0, m1, m2, m3).
           seq (emit (PrintMoments m0 m1 m2 m3))
          (seq (emit (Print (''The data is '' @ skew_desc m2 @ '' and '' @ kurtosis_desc m3 @ ''.'')))
               (emit (Log Info (''Statistical moments for column '' @ col @ '' printed successfully.'')))))))
       (\<lambda>e. emit (Log Error (''Failed to print statistical moments for column '' @ col @ '': '' @ exn_str e)))"

section \<open>The library calls\<close>

subsection \<open>pandas: column selection, \<^verbatim>\<open>dropna\<close>, \<^verbatim>\<open>df[col]\<close>\<close>

text \<open>\<^verbatim>\<open>include=[np.number]\<close> and \<^verbatim>\<open>include=['object', 'category']\<close>\<close>

definition is_number :: "dtype \<Rightarrow> bool" where
  "is_number d = (d = Numeric)"

definition is_object_or_category :: "dtype \<Rightarrow> bool" where
  "is_object_or_category d = (d = Object \<or> d = Category)"

text \<open>
  \<^verbatim>\<open>df.select_dtypes(include=...)\<close>: the columns of a matching dtype, in the order of
  the frame, with their cells.
\<close>

definition select_dtypes :: "(dtype \<Rightarrow> bool) \<Rightarrow> dataframe \<Rightarrow> dataframe" where
  "select_dtypes p df =
     \<lparr>columns = filter (\<lambda>c. p (snd c)) (columns df),
      rows = map (\<lambda>r. map snd (filter (\<lambda>cv. p (snd (fst cv))) (zip (columns df) r))) (rows df)\<rparr>"

definition column_names :: "dataframe \<Rightarrow> string list" where
  "column_names df = map fst (columns df)"

fun notna :: "cell \<Rightarrow> bool" where
  "notna NA = False"
| "notna (Num x) = True"
| "notna (Txt s) = True"

text \<open>
  \<^verbatim>\<open>df.dropna()\<close> (axis 0, how any): the mask of the rows whose cells are all present,
  then the rows the mask selects. The column index is not touched.
\<close>

definition dropna :: "dataframe \<Rightarrow> dataframe" where
  "dropna df =
     (let mask = map (list_all notna) (rows df)
      in df\<lparr>rows := map fst (filter snd (zip (rows df) mask))\<rparr>)"

fun index_of :: "string \<Rightarrow> (string \<times> dtype) list \<Rightarrow> nat option" where
  "index_of col [] = None"
| "index_of col (c # cs) =
     (if fst c = col then Some 0 else map_option Suc (index_of col cs))"

text \<open>\<^verbatim>\<open>df[col]\<close>: the cells of the column, KeyError when there is no such column.\<close>

definition getitem :: "dataframe \<Rightarrow> string \<Rightarrow> cell list res" where
  "getitem df col =
     (case index_of col (columns df) of
        None \<Rightarrow> raise (KeyError col)
      | Some i \<Rightarrow> ret (map (\<lambda>r. r ! i) (rows df)))"

subsection \<open>Floating-point arithmetic\<close>

text \<open>
  The arithmetic of the floating-point numbers (rounding, overflow to an infinity, the
  order in which numpy adds up an array) is not fixed by the code. It is a parameter of
  the model: the sum of an array, the four operations, the power \<^verbatim>\<open>**\<close>, the square
  root and the machine epsilon that SciPy reads from \<^verbatim>\<open>np.finfo\<close>. Whatever is proved
  holds for every such arithmetic. The comparison of two floating-point numbers is
  exact, and false when one of them is NaN.
\<close>

record float_ops =
  f_sum :: "fl list \<Rightarrow> fl"
  f_sub :: "fl \<Rightarrow> fl \<Rightarrow> fl"
  f_mul :: "fl \<Rightarrow> fl \<Rightarrow> fl"
  f_div :: "fl \<Rightarrow> fl \<Rightarrow> fl"
  f_pow :: "fl \<Rightarrow> fl \<Rightarrow> fl"
  f_sqrt :: "fl \<Rightarrow> fl"
  f_eps :: fl

fun fl_le :: "fl \<Rightarrow> fl \<Rightarrow> bool" where
  "fl_le NaN y = False"
| "fl_le x NaN = False"
| "fl_le NInf y = True"
| "fl_le x PInf = True"
| "fl_le (Fin x) (Fin y) = (x \<le> y)"
| "fl_le x y = False"

subsection \<open>pandas: \<^verbatim>\<open>Series.mean()\<close> and \<^verbatim>\<open>Series.std()\<close>\<close>

text \<open>
  The numbers of a series, the missing marker as None. A reduction over text cells
  raises TypeError.
\<close>

fun to_float :: "cell \<Rightarrow> exn + real option" where
  "to_float (Num x) = Inr (Some x)"
| "to_float NA = Inr None"
| "to_float (Txt s) = Inl (TypeError (''Could not convert string '' @ quoted s @ '' to numeric''))"

fun to_floats :: "cell list \<Rightarrow> real option list res" where
  "to_floats [] = ret []"
| "to_floats (c # cs) =
     (case to_float c of
        Inl e \<Rightarrow> raise e
      | Inr v \<Rightarrow> bind (to_floats cs) (\<lambda>vs. ret (v # vs)))"

definition count_notna :: "real option list \<Rightarrow> nat" where
  "count_notna vs = length (filter (\<lambda>v. v \<noteq> None) vs)"

text \<open>The values with every missing one replaced by the given number.\<close>

definition fill :: "fl \<Rightarrow> real option list \<Rightarrow> fl list" where
  "fill z vs = map (\<lambda>v. case v of None \<Rightarrow> z | Some x \<Rightarrow> Fin x) vs"

text \<open>
  \<^verbatim>\<open>nanmean\<close> with skipna (the default): the sum with the missing values put to 0,
  over the count of present values; NaN when the count is 0.
\<close>

definition nanmean :: "float_ops \<Rightarrow> real option list \<Rightarrow> fl" where
  "nanmean fp vs =
     (let count = count_notna vs; the_sum = f_sum fp (fill (Fin 0) vs)
      in if count > 0 then f_div fp the_sum (Fin (real count)) else NaN)"

text \<open>
  \<^verbatim>\<open>nanvar\<close> with skipna and ddof = 1 (the defaults of \<^verbatim>\<open>std\<close>): NaN when
  count \<le> ddof; otherwise the squared deviations from the average, those of the missing
  values put to 0, summed and divided by count - ddof. \<^verbatim>\<open>nanstd\<close> is its square root,
  and the square root of NaN is NaN.
\<close>

definition nanvar :: "float_ops \<Rightarrow> real option list \<Rightarrow> nat \<Rightarrow> fl" where
  "nanvar fp vs ddof =
     (let count = count_notna vs
      in if count \<le> ddof then NaN
         else
           (let avg = f_div fp (f_sum fp (fill (Fin 0) vs)) (Fin (real count));
                sqr = map (\<lambda>v. case v of
                                 None \<Rightarrow> Fin 0
                               | Some x \<Rightarrow> f_pow fp (f_sub fp avg (Fin x)) (Fin 2)) vs
            in f_div fp (f_sum fp sqr) (Fin (real (count - ddof)))))"

definition np_sqrt :: "float_ops \<Rightarrow> fl \<Rightarrow> fl" where
  "np_sqrt fp x = (case x of NaN \<Rightarrow> NaN | _ \<Rightarrow> f_sqrt fp x)"

definition nanstd :: "float_ops \<Rightarrow> real option list \<Rightarrow> nat \<Rightarrow> fl" where
  "nanstd fp vs ddof = np_sqrt fp (nanvar fp vs ddof)"

definition series_mean :: "float_ops \<Rightarrow> cell list \<Rightarrow> fl res" where
  "series_mean fp s = bind (to_floats s) (\<lambda>vs. ret (nanmean fp vs))"

definition series_std :: "float_ops \<Rightarrow> cell list \<Rightarrow> fl res" where
  "series_std fp s = bind (to_floats s) (\<lambda>vs. ret (nanstd fp vs 1))"

subsection \<open>scipy.stats: \<^verbatim>\<open>skew\<close> and \<^verbatim>\<open>kurtosis\<close>\<close>

datatype nan_policy = Propagate | Raise | Omit

definition contains_nan :: "real option list \<Rightarrow> bool" where
  "contains_nan vs = list_ex (\<lambda>v. v = None) vs"

definition remove_nans :: "real option list \<Rightarrow> fl list" where
  "remove_nans vs = concat (map (\<lambda>v. case v of None \<Rightarrow> [] | Some x \<Rightarrow> [Fin x]) vs)"

text \<open>\<^verbatim>\<open>np.mean\<close> of an array: its sum over its length, NaN for the empty array.\<close>

definition np_mean :: "float_ops \<Rightarrow> fl list \<Rightarrow> fl" where
  "np_mean fp xs =
     (if xs = [] then NaN else f_div fp (f_sum fp xs) (Fin (real (length xs))))"

text \<open>The k-th central moment about the given mean (divisor n).\<close>

definition moment :: "float_ops \<Rightarrow> nat \<Rightarrow> fl list \<Rightarrow> fl \<Rightarrow> fl" where
  "moment fp k xs mean =
     np_mean fp (map (\<lambda>x. f_pow fp (f_sub fp x mean) (Fin (real k))) xs)"

text \<open>
  The defaults \<^verbatim>\<open>bias=True\<close> and \<^verbatim>\<open>fisher=True\<close>: the biased (population) skewness
  \<open>m3 / m2 ** 1.5\<close> and the excess kurtosis \<open>m4 / m2 ** 2 - 3\<close>. The result is NaN for
  an empty sample, and wherever the variance is negligible against the mean:
  \<open>m2 <= (eps * mean) ** 2\<close>.
\<close>

definition negligible :: "float_ops \<Rightarrow> fl \<Rightarrow> fl \<Rightarrow> bool" where
  "negligible fp m2 mean = fl_le m2 (f_pow fp (f_mul fp (f_eps fp) mean) (Fin 2))"

definition skew_values :: "float_ops \<Rightarrow> fl list \<Rightarrow> fl" where
  "skew_values fp xs =
     (if xs = [] then NaN
      else let mean = np_mean fp xs; m2 = moment fp 2 xs mean; m3 = moment fp 3 xs mean
           in if negligible fp m2 mean then NaN
              else f_div fp m3 (f_pow fp m2 (Fin (3 / 2))))"

definition kurtosis_values :: "float_ops \<Rightarrow> fl list \<Rightarrow> fl" where
  "kurtosis_values fp xs =
     (if xs = [] then NaN
      else let mean = np_mean fp xs; m2 = moment fp 2 xs mean; m4 = moment fp 4 xs mean
           in if negligible fp m2 mean then NaN
              else f_sub fp (f_div fp m4 (f_pow fp m2 (Fin 2))) (Fin 3))"

text \<open>
  The handling of NaN by policy: with \<^verbatim>\<open>'omit'\<close> the NaNs are removed before the
  statistic is computed, with \<^verbatim>\<open>'propagate'\<close> the result is NaN, with \<^verbatim>\<open>'raise'\<close>
  a ValueError is raised.
\<close>

definition with_nan_policy :: "(fl list \<Rightarrow> fl) \<Rightarrow> real option list \<Rightarrow> nan_policy \<Rightarrow> fl res" where
  "with_nan_policy f vs policy =
     (if contains_nan vs then
        (case policy of
           Propagate \<Rightarrow> ret NaN
         | Raise \<Rightarrow> raise (OtherError ''The input contains nan values'')
         | Omit \<Rightarrow> ret (f (remove_nans vs)))
      else ret (f (remove_nans vs)))"

definition ss_skew :: "float_ops \<Rightarrow> cell list \<Rightarrow> nan_policy \<Rightarrow> fl res" where
  "ss_skew fp s policy = bind (to_floats s) (\<lambda>vs. with_nan_policy (skew_values fp) vs policy)"

definition ss_kurtosis :: "float_ops \<Rightarrow> cell list \<Rightarrow> nan_policy \<Rightarrow> fl res" where
  "ss_kurtosis fp s policy =
     bind (to_floats s) (\<lambda>vs. with_nan_policy (kurtosis_values fp) vs policy)"

section \<open>The moments: \<^verbatim>\<open>statistical_analysis\<close>\<close>

definition statistical_analysis :: "float_ops \<Rightarrow> dataframe \<Rightarrow> string \<Rightarrow> moments option res" where
  "statistical_analysis fp df col =
     try_except
       (bind (bind (getitem df col) (series_mean fp)) (\<lambda>mean.
        bind (bind (getitem df col) (series_std fp)) (\<lambda>stddev.
        bind (bind (getitem df col) (\<lambda>s. ss_skew fp s Omit)) (\<lambda>skew.
        bind (bind (getitem df col) (\<lambda>s. ss_kurtosis fp s Omit)) (\<lambda>excess_kurtosis.
        seq (emit (Log Info (''Statistical analysis for column '' @ col @ '' completed successfully.'')))
            (ret (Some (mean, stddev, skew, excess_kurtosis))))))))
       (\<lambda>e. seq (emit (Log Error (''Failed to perform statistical analysis for column '' @ col @ '': '' @ exn_str e)))
                (ret None))"

section \<open>The environment of a run\<close>

text \<open>
  What the code cannot decide by itself: what \<^verbatim>\<open>pd.read_csv\<close> gives for
  \<^verbatim>\<open>data.csv\<close>, the floating-point arithmetic of the machine, and whether a call
  into pandas' diagnostics, into matplotlib or into seaborn fails (and with which
  exception). A chart can fail when its figure is created, when it is drawn, and when
  it is saved.
\<close>

record env =
  csv :: "exn + dataframe"
  fpu :: float_ops
  diag_fault :: "diag \<Rightarrow> dataframe \<Rightarrow> exn option"
  figure_fault :: "chart \<Rightarrow> exn option"
  draw_fault :: "chart \<Rightarrow> exn option"
  save_fault :: "chart \<Rightarrow> exn option"

text \<open>A library call that fails as the environment says, and otherwise has the given effect.\<close>

definition step :: "exn option \<Rightarrow> event list \<Rightarrow> unit res" where
  "step fault es = (case fault of Some e \<Rightarrow> raise e | None \<Rightarrow> (es, Inr ()))"

section \<open>The cleaner: \<^verbatim>\<open>preprocessing\<close>\<close>

definition preprocessing :: "env \<Rightarrow> dataframe \<Rightarrow> dataframe option res" where
  "preprocessing env df =
     try_except
       (seq (step (diag_fault env Describe df) [PrintDiag Describe])
       (seq (step (diag_fault env Head df) [PrintDiag Head])
       (seq (step (diag_fault env Corr df) [PrintDiag Corr])
       (seq (emit (Log Info ''Data preprocessing completed successfully.''))
            (ret (Some (dropna df)))))))
       (\<lambda>e. seq (emit (Log Error (''Failed to preprocess data: '' @ exn_str e)))
                (ret None))"

section \<open>The charts\<close>

definition plot_relational_plot :: "env \<Rightarrow> dataframe \<Rightarrow> unit res" where
  "plot_relational_plot env df =
     try_except
       (seq (step (figure_fault env Relational) [])
       (seq (step (save_fault env Relational) [Saved ''relational_plot.png''])
            (emit (Log Info ''Relational plot saved successfully.''))))
       (\<lambda>e. emit (Log Error (''Failed to save relational plot: '' @ exn_str e)))"

definition plot_categorical_plot :: "env \<Rightarrow> dataframe \<Rightarrow> unit res" where
  "plot_categorical_plot env df =
     try_except
       (seq (step (figure_fault env Categorical) [])
       (seq (step (save_fault env Categorical) [Saved ''categorical_plot.png''])
            (emit (Log Info ''Categorical plot saved successfully.''))))
       (\<lambda>e. emit (Log Error (''Failed to save categorical plot: '' @ exn_str e)))"

definition plot_statistical_plot :: "env \<Rightarrow> dataframe \<Rightarrow> unit res" where
  "plot_statistical_plot env df =
     try_except
       (seq (step (figure_fault env Statistical) [])
       (seq (step (save_fault env Statistical) [Saved ''statistical_plot.png''])
            (emit (Log Info ''Statistical plot saved successfully.''))))
       (\<lambda>e. emit (Log Error (''Failed to save statistical plot: '' @ exn_str e)))"

definition scatter_plot :: "env \<Rightarrow> dataframe \<Rightarrow> string \<Rightarrow> unit res" where
  "scatter_plot env df file_name =
     try_except
       (seq (step (figure_fault env Scatter) [])
         (let numeric_cols = column_names (select_dtypes is_number df)
          in if length numeric_cols < 2 then
               seq (emit (Print (''Insufficient numerical columns in '' @ file_name @ ''.'')))
                   (emit (Log Warning (''Insufficient numerical columns in '' @ file_name @ ''.'')))
             else
               seq (step (draw_fault env Scatter) [Render Scatter [numeric_cols ! 0, numeric_cols ! 1]])
              (seq (step (save_fault env Scatter) [Saved (''scatter_'' @ file_name @ ''.png'')])
                   (emit (Log Info (''Scatter plot for '' @ file_name @ '' saved successfully.''))))))
       (\<lambda>e. emit (Log Error (''Failed to save scatter plot for '' @ file_name @ '': '' @ exn_str e)))"

definition bar_plot :: "env \<Rightarrow> dataframe \<Rightarrow> string \<Rightarrow> unit res" where
  "bar_plot env df file_name =
     try_except
       (seq (step (figure_fault env Bar) [])
         (let category_cols = column_names (select_dtypes is_object_or_category df)
          in if length category_cols = 0 then
               seq (emit (Print (''No categorical data in '' @ file_name @ ''.'')))
                   (emit (Log Warning (''No categorical data in '' @ file_name @ ''.'')))
             else
               seq (step (draw_fault env Bar) [Render Bar [category_cols ! 0]])
              (seq (step (save_fault env Bar) [Saved (''bar_'' @ file_name @ ''.png'')])
                   (emit (Log Info (''Bar chart for '' @ file_name @ '' saved successfully.''))))))
       (\<lambda>e. emit (Log Error (''Failed to save bar chart for '' @ file_name @ '': '' @ exn_str e)))"

text \<open>The heatmap draws the correlation matrix of all the numeric columns.\<close>

definition heatmap :: "env \<Rightarrow> dataframe \<Rightarrow> string \<Rightarrow> unit res" where
  "heatmap env df file_name =
     try_except
       (seq (step (figure_fault env Heatmap) [])
         (let numeric_data = select_dtypes is_number df
          in if length (columns numeric_data) < 2 then
               seq (emit (Print (''Not enough numeric data in '' @ file_name @ ''.'')))
                   (emit (Log Warning (''Not enough numeric data in '' @ file_name @ ''.'')))
             else
               seq (step (draw_fault env Heatmap) [Render Heatmap (column_names numeric_data)])
              (seq (step (save_fault env Heatmap) [Saved (''heatmap_'' @ file_name @ ''.png'')])
                   (emit (Log Info (''Heatmap for '' @ file_name @ '' saved successfully.''))))))
       (\<lambda>e. emit (Log Error (''Failed to save heatmap for '' @ file_name @ '': '' @ exn_str e)))"

section \<open>The pipeline: \<^verbatim>\<open>main\<close>\<close>

text \<open>Lines 312 to 317 of \<^verbatim>\<open>main\<close>: the six chart calls, in their order.\<close>

definition charts :: "env \<Rightarrow> dataframe \<Rightarrow> string \<Rightarrow> unit res" where
  "charts env df file_name =
     seq (plot_relational_plot env df)
    (seq (plot_statistical_plot env df)
    (seq (plot_categorical_plot env df)
    (seq (scatter_plot env df file_name)
    (seq (heatmap env df file_name)
         (bar_plot env df file_name)))))"

text \<open>
  Lines 304 to 319: \<^verbatim>\<open>main\<close> from the call of \<^verbatim>\<open>preprocessing\<close> on. The result of
  \<^verbatim>\<open>preprocessing\<close> is used as it comes; \<^verbatim>\<open>None.select_dtypes\<close> raises
  AttributeError, outside every \<^verbatim>\<open>try\<close>.
\<close>

definition analyse :: "env \<Rightarrow> dataframe \<Rightarrow> string \<Rightarrow> unit res" where
  "analyse env df0 file_name =
     bind (preprocessing env df0) (\<lambda>df.
       case df of
         None \<Rightarrow>
           raise (AttributeError (quoted ''NoneType'' @ '' object has no attribute '' @ quoted ''select_dtypes''))
       | Some df \<Rightarrow>
           (let num_cols = column_names (select_dtypes is_number df)
            in if length num_cols = 0 then
                 seq (emit (Print (''No numeric data in '' @ file_name @ ''.'')))
                     (emit (Log Warning (''No numeric data in '' @ file_name @ ''.'')))
               else
                 (let selected_col = num_cols ! 0
                  in seq (charts env df file_name)
                         (bind (statistical_analysis (fpu env) df selected_col) (\<lambda>moments.
                            writing moments selected_col)))))"

text \<open>
  The two \<^verbatim>\<open>except\<close> clauses around \<^verbatim>\<open>pd.read_csv\<close>; any other exception of the
  load is not caught.
\<close>

fun load_failed :: "string \<Rightarrow> exn \<Rightarrow> unit res" where
  "load_failed file_name (FileNotFoundError m) =
     seq (emit (Print (''File '' @ file_name @ '' not found.'')))
         (emit (Log Error (''File '' @ file_name @ '' not found.'')))"
| "load_failed file_name (ParserError m) =
     seq (emit (Print (''Error reading '' @ file_name @ '', check formatting.'')))
         (emit (Log Error (''Error reading '' @ file_name @ '', check formatting.'')))"
| "load_failed file_name e = raise e"

definition main :: "env \<Rightarrow> unit res" where
  "main env =
     (let file_name = ''data.csv''
      in case csv env of
           Inl e \<Rightarrow> load_failed file_name e
         | Inr df \<Rightarrow>
             seq (emit (Log Info (''Data loaded from '' @ file_name @ '' successfully.'')))
                 (analyse env df file_name))"

section \<open>Example inputs\<close>

text \<open>
  An arithmetic for the examples: exact on finite numbers (the sum of the empty array
  is 0; a negative number has its second, third and fourth power only), NaN wherever an
  argument is not finite or the exact result is not defined.
\<close>

fun exact1 :: "(real \<Rightarrow> fl) \<Rightarrow> fl \<Rightarrow> fl" where
  "exact1 f (Fin x) = f x"
| "exact1 f y = NaN"

fun exact2 :: "(real \<Rightarrow> real \<Rightarrow> fl) \<Rightarrow> fl \<Rightarrow> fl \<Rightarrow> fl" where
  "exact2 f (Fin x) (Fin y) = f x y"
| "exact2 f x y = NaN"

fun exact_sum :: "fl list \<Rightarrow> fl" where
  "exact_sum [] = Fin 0"
| "exact_sum (x # xs) = exact2 (\<lambda>a b. Fin (a + b)) x (exact_sum xs)"

fun exact_pow :: "real \<Rightarrow> real \<Rightarrow> fl" where
  "exact_pow a b =
     (if 0 \<le> a then Fin (a powr b)
      else if b = 2 then Fin (a ^ 2)
      else if b = 3 then Fin (a ^ 3)
      else if b = 4 then Fin (a ^ 4)
      else NaN)"

definition exact_ops :: float_ops where
  "exact_ops =
     \<lparr>f_sum = exact_sum,
      f_sub = exact2 (\<lambda>a b. Fin (a - b)),
      f_mul = exact2 (\<lambda>a b. Fin (a * b)),
      f_div = exact2 (\<lambda>a b. if b = 0 then NaN else Fin (a / b)),
      f_pow = exact2 exact_pow,
      f_sqrt = exact1 (\<lambda>a. if a < 0 then NaN else Fin (sqrt a)),
      f_eps = Fin (1 / 2 ^ 52)\<rparr>"

text \<open>A run on a file that loads as the given frame, in which no library call fails.\<close>

definition quiet :: "dataframe \<Rightarrow> env" where
  "quiet df =
     \<lparr>csv = Inr df, fpu = exact_ops, diag_fault = (\<lambda>d f. None), figure_fault = (\<lambda>c. None),
      draw_fault = (\<lambda>c. None), save_fault = (\<lambda>c. None)\<rparr>"

definition df_single :: dataframe where
  "df_single = \<lparr>columns = [(''x'', Numeric)], rows = [[Num 5]]\<rparr>"

definition df_mixed :: dataframe where
  "df_mixed =
     \<lparr>columns = [(''id'', Other), (''a'', Numeric), (''name'', Object), (''b'', Numeric)],
      rows = [[Txt ''True'', Num 1, Txt ''u'', Num 2],
              [Txt ''False'', NA, Txt ''v'', Num 4],
              [Txt ''True'', Num 3, Txt ''w'', Num 6]]\<rparr>"

text \<open>
  A run in which the first \<^verbatim>\<open>print\<close> of \<^verbatim>\<open>preprocessing\<close> fails, as it does with
  UnicodeEncodeError on a standard output that cannot encode a character of the table.
\<close>

definition stdout_broken :: "dataframe \<Rightarrow> env" where
  "stdout_broken df =
     (quiet df)\<lparr>diag_fault := (\<lambda>d f. if d = Describe then Some (OtherError ''charmap codec cannot encode character'') else None)\<rparr>"

section \<open>Well-typed frames\<close>



section \<open>Rules for computations\<close>

lemma bind_Inr [simp]: "bind (es, Inr a) f = (es @ fst (f a), snd (f a))"
  by (simp add: bind_def split: prod.splits)

lemma bind_Inl [simp]: "bind (es, Inl e) f = (es, Inl e)"
  by (simp add: bind_def)

lemma seq_Inr [simp]: "seq (es, Inr u) k = (es @ fst k, snd k)"
  by (simp add: seq_def)

lemma seq_Inl [simp]: "seq (es, Inl e) k = (es, Inl e)"
  by (simp add: seq_def)

lemma try_except_Inr [simp]: "try_except (es, Inr a) h = (es, Inr a)"
  by (simp add: try_except_def)

lemma try_except_Inl [simp]: "try_except (es, Inl e) h = (es @ fst (h e), snd (h e))"
  by (simp add: try_except_def split: prod.splits)

lemma step_None [simp]: "step None es = (es, Inr ())"
  by (simp add: step_def)

lemma step_Some [simp]: "step (Some e) es = ([], Inl e)"
  by (simp add: step_def raise_def)

lemmas res_simps = ret_def emit_def raise_def

lemma returns_pair [simp]: "returns (es, r) = (case r of Inl e \<Rightarrow> False | Inr a \<Rightarrow> True)"
  by (simp add: returns_def)

lemma outcome_pair [simp]: "outcome (es, r) = r"
  by (simp add: outcome_def)

lemma events_pair [simp]: "events (es, r) = es"
  by (simp add: events_def)

lemma returns_try_except:
  assumes "\<And>e. returns (h e)"
  shows "returns (try_except b h)"
proof (cases b)
  case (Pair es r)
  show ?thesis
  proof (cases r)
    case (Inl e)
    with Pair assms [of e] show ?thesis
      by (simp add: returns_def)
  next
    case (Inr a)
    with Pair show ?thesis by simp
  qed
qed

lemma returns_seq: "returns m \<Longrightarrow> returns k \<Longrightarrow> returns (seq m k)"
  by (cases m; cases k) (auto simp: returns_def split: sum.splits)

lemma returns_emit [simp]: "returns (emit e)"
  by (simp add: emit_def)

section \<open>The shape labels\<close>

lemma writing_Some:
  "writing (Some (m, sd, sk, ku)) col =
     ([Print (''For the attribute '' @ col @ '':''),
       PrintMoments m sd sk ku,
       Print (''The data is '' @ skew_desc sk @ '' and '' @ kurtosis_desc ku @ ''.''),
       Log Info (''Statistical moments for column '' @ col @ '' printed successfully.'')],
      Inr ())"
  by (simp add: writing_def subscript_def res_simps)

text \<open>
  Claim C2. The labels of the report depend on the skewness and the excess kurtosis
  only, with the thresholds at zero: a positive skewness is right-skewed, a negative one
  left-skewed, zero symmetrical; a positive excess kurtosis is leptokurtic, a negative
  one platykurtic, zero mesokurtic. \<^verbatim>\<open>writing\<close> prints the two labels for every
  4-tuple of moments and returns; at (0, 0) the line is "The data is Symmetrical and
  Mesokurtic.".
\<close>

theorem shape_classification:
  "(0 < s \<longrightarrow> skew_desc (Fin s) = ''Right-skewed'') \<and>
   (s < 0 \<longrightarrow> skew_desc (Fin s) = ''Left-skewed'') \<and>
   skew_desc (Fin 0) = ''Symmetrical'' \<and>
   (0 < k \<longrightarrow> kurtosis_desc (Fin k) = ''Leptokurtic'') \<and>
   (k < 0 \<longrightarrow> kurtosis_desc (Fin k) = ''Platykurtic'') \<and>
   kurtosis_desc (Fin 0) = ''Mesokurtic'' \<and>
   writing (Some (m, sd, sk, ku)) col =
     ([Print (''For the attribute '' @ col @ '':''),
       PrintMoments m sd sk ku,
       Print (''The data is '' @ skew_desc sk @ '' and '' @ kurtosis_desc ku @ ''.''),
       Log Info (''Statistical moments for column '' @ col @ '' printed successfully.'')],
      Inr ()) \<and>
   writing (Some (m, sd, Fin 0, Fin 0)) col =
     ([Print (''For the attribute '' @ col @ '':''),
       PrintMoments m sd (Fin 0) (Fin 0),
       Print ''The data is Symmetrical and Mesokurtic.'',
       Log Info (''Statistical moments for column '' @ col @ '' printed successfully.'')],
      Inr ()) \<and>
   skew_desc PInf = ''Right-skewed'' \<and> skew_desc NInf = ''Left-skewed'' \<and>
   kurtosis_desc PInf = ''Leptokurtic'' \<and> kurtosis_desc NInf = ''Platykurtic''"
  by (simp add: writing_Some) (simp add: skew_desc_def kurtosis_desc_def)

theorem shape_classification_witness:
  "skew_desc (Fin (3 / 2)) = ''Right-skewed'' \<and>
   skew_desc (Fin (- (1 / 5))) = ''Left-skewed'' \<and>
   kurtosis_desc (Fin 2) = ''Leptokurtic'' \<and>
   kurtosis_desc (Fin (- 1)) = ''Platykurtic''"
  using shape_classification [of "3 / 2" 2] shape_classification [of "- (1 / 5)" "- 1"]
  by simp

section \<open>A failed analysis\<close>

lemma statistical_analysis_KeyError:
  "index_of col (columns df) = None \<Longrightarrow>
   statistical_analysis fp df col =
     ([Log Error (''Failed to perform statistical analysis for column '' @ col @ '': '' @ quoted col)],
      Inr None)"
  by (simp add: statistical_analysis_def getitem_def res_simps)

text \<open>
  Claim C10. \<^verbatim>\<open>writing(None, col)\<close> does not raise: after the heading line the
  subscript of None raises TypeError inside the \<^verbatim>\<open>try\<close>, the handler logs one error
  and the function returns; no line of moments and no line of labels is printed. So the
  last two statements of \<^verbatim>\<open>main\<close> return whenever \<^verbatim>\<open>statistical_analysis\<close> gives
  None.
\<close>

theorem writing_after_failed_analysis:
  "writing None col =
     ([Print (''For the attribute '' @ col @ '':''),
       Log Error (''Failed to print statistical moments for column '' @ col @ '': ''
                  @ quoted ''NoneType'' @ '' object is not subscriptable'')],
      Inr ()) \<and>
   (outcome (statistical_analysis fp df col) = Inr None \<longrightarrow>
      bind (statistical_analysis fp df col) (\<lambda>moments. writing moments col) =
        (events (statistical_analysis fp df col) @
         [Print (''For the attribute '' @ col @ '':''),
          Log Error (''Failed to print statistical moments for column '' @ col @ '': ''
                     @ quoted ''NoneType'' @ '' object is not subscriptable'')],
         Inr ()))"
proof (intro conjI impI)
  show w: "writing None col =
     ([Print (''For the attribute '' @ col @ '':''),
       Log Error (''Failed to print statistical moments for column '' @ col @ '': ''
                  @ quoted ''NoneType'' @ '' object is not subscriptable'')],
      Inr ())"
    by (simp add: writing_def subscript_def res_simps)
  assume "outcome (statistical_analysis fp df col) = Inr None"
  then obtain es where e: "statistical_analysis fp df col = (es, Inr None)"
    by (cases "statistical_analysis fp df col") simp
  show "bind (statistical_analysis fp df col) (\<lambda>moments. writing moments col) =
        (events (statistical_analysis fp df col) @
         [Print (''For the attribute '' @ col @ '':''),
          Log Error (''Failed to print statistical moments for column '' @ col @ '': ''
                     @ quoted ''NoneType'' @ '' object is not subscriptable'')],
         Inr ())"
    by (simp add: e w)
qed

theorem writing_after_failed_analysis_witness:
  "outcome (statistical_analysis exact_ops df_single ''y'') = Inr None \<and>
   bind (statistical_analysis exact_ops df_single ''y'') (\<lambda>moments. writing moments ''y'') =
     ([Log Error (''Failed to perform statistical analysis for column y: '' @ quoted ''y''),
       Print ''For the attribute y:'',
       Log Error (''Failed to print statistical moments for column y: ''
                  @ quoted ''NoneType'' @ '' object is not subscriptable'')],
      Inr ())"
proof -
  have k: "statistical_analysis exact_ops df_single ''y'' =
     ([Log Error (''Failed to perform statistical analysis for column y: '' @ quoted ''y'')], Inr None)"
    using statistical_analysis_KeyError [of "''y''" df_single exact_ops] by (simp add: df_single_def)
  show ?thesis
    using writing_after_failed_analysis [of "''y''" exact_ops df_single] by (simp add: k)
qed

section \<open>The chart preconditions\<close>

lemma numeric_names:
  "column_names (select_dtypes is_number df) = map fst (filter (\<lambda>c. snd c = Numeric) (columns df))"
  by (simp add: column_names_def select_dtypes_def is_number_def)

lemma categorical_names:
  "column_names (select_dtypes is_object_or_category df) =
     map fst (filter (\<lambda>c. snd c = Object \<or> snd c = Category) (columns df))"
  by (simp add: column_names_def select_dtypes_def is_object_or_category_def)

lemma numeric_count:
  "length (columns (select_dtypes is_number df)) = length (filter (\<lambda>c. snd c = Numeric) (columns df))"
  by (simp add: select_dtypes_def is_number_def)

lemma scatter_plot_no_fault:
  assumes "figure_fault env Scatter = None" "draw_fault env Scatter = None"
    "save_fault env Scatter = None"
  shows "scatter_plot env df file_name =
     (let numeric_cols = map fst (filter (\<lambda>c. snd c = Numeric) (columns df))
      in if length numeric_cols < 2 then
        ([Print (''Insufficient numerical columns in '' @ file_name @ ''.''),
          Log Warning (''Insufficient numerical columns in '' @ file_name @ ''.'')], Inr ())
      else
        ([Render Scatter [numeric_cols ! 0, numeric_cols ! 1],
          Saved (''scatter_'' @ file_name @ ''.png''),
          Log Info (''Scatter plot for '' @ file_name @ '' saved successfully.'')], Inr ()))"
  using assms by (simp add: scatter_plot_def numeric_names Let_def res_simps)

lemma bar_plot_no_fault:
  assumes "figure_fault env Bar = None" "draw_fault env Bar = None"
    "save_fault env Bar = None"
  shows "bar_plot env df file_name =
     (let category_cols = map fst (filter (\<lambda>c. snd c = Object \<or> snd c = Category) (columns df))
      in if length category_cols = 0 then
        ([Print (''No categorical data in '' @ file_name @ ''.''),
          Log Warning (''No categorical data in '' @ file_name @ ''.'')], Inr ())
      else
        ([Render Bar [category_cols ! 0],
          Saved (''bar_'' @ file_name @ ''.png''),
          Log Info (''Bar chart for '' @ file_name @ '' saved successfully.'')], Inr ()))"
  using assms by (simp add: bar_plot_def categorical_names Let_def res_simps)

lemma heatmap_no_fault:
  assumes "figure_fault env Heatmap = None" "draw_fault env Heatmap = None"
    "save_fault env Heatmap = None"
  shows "heatmap env df file_name =
     (let numeric_cols = map fst (filter (\<lambda>c. snd c = Numeric) (columns df))
      in if length numeric_cols < 2 then
        ([Print (''Not enough numeric data in '' @ file_name @ ''.''),
          Log Warning (''Not enough numeric data in '' @ file_name @ ''.'')], Inr ())
      else
        ([Render Heatmap numeric_cols,
          Saved (''heatmap_'' @ file_name @ ''.png''),
          Log Info (''Heatmap for '' @ file_name @ '' saved successfully.'')], Inr ()))"
  using assms by (simp add: heatmap_def numeric_names numeric_count Let_def res_simps)

lemma placeholders_no_fault:
  assumes "\<And>c. figure_fault env c = None" "\<And>c. save_fault env c = None"
  shows "plot_relational_plot env df =
           ([Saved ''relational_plot.png'', Log Info ''Relational plot saved successfully.''], Inr ())"
    and "plot_statistical_plot env df =
           ([Saved ''statistical_plot.png'', Log Info ''Statistical plot saved successfully.''], Inr ())"
    and "plot_categorical_plot env df =
           ([Saved ''categorical_plot.png'', Log Info ''Categorical plot saved successfully.''], Inr ())"
  using assms
  by (simp_all add: plot_relational_plot_def plot_statistical_plot_def plot_categorical_plot_def res_simps)

text \<open>
  Claim C1. When no call into matplotlib or seaborn fails: \<^verbatim>\<open>scatter_plot\<close> saves its
  file exactly when the frame has at least 2 numeric columns, and otherwise prints and
  logs "Insufficient numerical columns" and returns; \<^verbatim>\<open>bar_plot\<close> saves its file
  exactly when the frame has at least 1 object or category column, and otherwise prints
  and logs "No categorical data"; \<^verbatim>\<open>heatmap\<close> saves its file exactly when the frame
  has at least 2 numeric columns, and otherwise prints and logs "Not enough numeric
  data".
\<close>

theorem chart_preconditions:
  assumes "\<forall>c. figure_fault env c = None \<and> draw_fault env c = None \<and> save_fault env c = None"
  shows
   "(saved_files (events (scatter_plot env df f)) = [''scatter_'' @ f @ ''.png'']
       \<longleftrightarrow> 2 \<le> length (filter (\<lambda>c. snd c = Numeric) (columns df))) \<and>
    (length (filter (\<lambda>c. snd c = Numeric) (columns df)) < 2 \<longrightarrow>
       scatter_plot env df f =
         ([Print (''Insufficient numerical columns in '' @ f @ ''.''),
           Log Warning (''Insufficient numerical columns in '' @ f @ ''.'')], Inr ())) \<and>
    (saved_files (events (bar_plot env df f)) = [''bar_'' @ f @ ''.png'']
       \<longleftrightarrow> 1 \<le> length (filter (\<lambda>c. snd c = Object \<or> snd c = Category) (columns df))) \<and>
    (length (filter (\<lambda>c. snd c = Object \<or> snd c = Category) (columns df)) < 1 \<longrightarrow>
       bar_plot env df f =
         ([Print (''No categorical data in '' @ f @ ''.''),
           Log Warning (''No categorical data in '' @ f @ ''.'')], Inr ())) \<and>
    (saved_files (events (heatmap env df f)) = [''heatmap_'' @ f @ ''.png'']
       \<longleftrightarrow> 2 \<le> length (filter (\<lambda>c. snd c = Numeric) (columns df))) \<and>
    (length (filter (\<lambda>c. snd c = Numeric) (columns df)) < 2 \<longrightarrow>
       heatmap env df f =
         ([Print (''Not enough numeric data in '' @ f @ ''.''),
           Log Warning (''Not enough numeric data in '' @ f @ ''.'')], Inr ()))"
proof -
  from assms have s: "figure_fault env Scatter = None" "draw_fault env Scatter = None"
    "save_fault env Scatter = None" by simp_all
  from assms have b: "figure_fault env Bar = None" "draw_fault env Bar = None"
    "save_fault env Bar = None" by simp_all
  from assms have h: "figure_fault env Heatmap = None" "draw_fault env Heatmap = None"
    "save_fault env Heatmap = None" by simp_all
  show ?thesis
    by (simp add: scatter_plot_no_fault [OF s] bar_plot_no_fault [OF b] heatmap_no_fault [OF h]
        Let_def events_def saved_files_def Suc_le_eq)
qed

theorem chart_preconditions_witness:
  "saved_files (events (scatter_plot (quiet df_mixed) df_mixed ''data.csv'')) = [''scatter_data.csv.png''] \<and>
   saved_files (events (bar_plot (quiet df_mixed) df_mixed ''data.csv'')) = [''bar_data.csv.png''] \<and>
   saved_files (events (heatmap (quiet df_mixed) df_mixed ''data.csv'')) = [''heatmap_data.csv.png''] \<and>
   scatter_plot (quiet df_single) df_single ''data.csv'' =
     ([Print ''Insufficient numerical columns in data.csv.'',
       Log Warning ''Insufficient numerical columns in data.csv.''], Inr ()) \<and>
   bar_plot (quiet df_single) df_single ''data.csv'' =
     ([Print ''No categorical data in data.csv.'',
       Log Warning ''No categorical data in data.csv.''], Inr ()) \<and>
   heatmap (quiet df_single) df_single ''data.csv'' =
     ([Print ''Not enough numeric data in data.csv.'',
       Log Warning ''Not enough numeric data in data.csv.''], Inr ())"
proof -
  have m: "\<forall>c. figure_fault (quiet df_mixed) c = None \<and> draw_fault (quiet df_mixed) c = None \<and>
      save_fault (quiet df_mixed) c = None"
    by (simp add: quiet_def)
  have s: "\<forall>c. figure_fault (quiet df_single) c = None \<and> draw_fault (quiet df_single) c = None \<and>
      save_fault (quiet df_single) c = None"
    by (simp add: quiet_def)
  show ?thesis
    using chart_preconditions [OF m, of df_mixed "''data.csv''"]
      chart_preconditions [OF s, of df_single "''data.csv''"]
    by (simp add: df_mixed_def df_single_def)
qed

section \<open>The six charts of a run\<close>

lemma returns_placeholders:
  "returns (plot_relational_plot env df)" "returns (plot_statistical_plot env df)"
  "returns (plot_categorical_plot env df)"
  by (simp_all add: plot_relational_plot_def plot_statistical_plot_def plot_categorical_plot_def
      returns_try_except)

lemma returns_charts_each:
  "returns (scatter_plot env df f)" "returns (heatmap env df f)" "returns (bar_plot env df f)"
  by (simp_all add: scatter_plot_def heatmap_def bar_plot_def returns_try_except)

lemma returns_charts: "returns (charts env df f)"
  unfolding charts_def
  by (intro returns_seq returns_placeholders returns_charts_each)

lemma charts_no_fault:
  assumes "\<forall>c. figure_fault env c = None \<and> draw_fault env c = None \<and> save_fault env c = None"
  shows "charts env df f =
    ([Saved ''relational_plot.png'', Log Info ''Relational plot saved successfully.'',
      Saved ''statistical_plot.png'', Log Info ''Statistical plot saved successfully.'',
      Saved ''categorical_plot.png'', Log Info ''Categorical plot saved successfully.'']
     @ events (scatter_plot env df f) @ events (heatmap env df f) @ events (bar_plot env df f),
     Inr ())"
proof -
  have r: "\<And>m. returns m \<Longrightarrow> m = (events m, Inr ())"
    by (auto simp: returns_def events_def split: sum.splits prod.splits intro: prod_eqI) 
  from assms have p: "\<And>c. figure_fault env c = None" "\<And>c. save_fault env c = None"
    by simp_all
  have s: "scatter_plot env df f = (events (scatter_plot env df f), Inr ())"
    by (rule r) (rule returns_charts_each)
  have h: "heatmap env df f = (events (heatmap env df f), Inr ())"
    by (rule r) (rule returns_charts_each)
  have b: "bar_plot env df f = (events (bar_plot env df f), Inr ())"
    by (rule r) (rule returns_charts_each)
  show ?thesis
    unfolding charts_def placeholders_no_fault [OF p]
    by (subst s, subst h, subst b) simp
qed

text \<open>
  Claim C4, as the code has it. The six chart calls of \<^verbatim>\<open>main\<close> never raise. On a
  frame with exactly 1 numeric column and no object or category column, when no call into
  matplotlib or seaborn fails, they save the three overview images
  \<^verbatim>\<open>relational_plot.png\<close>, \<^verbatim>\<open>statistical_plot.png\<close> and \<^verbatim>\<open>categorical_plot.png\<close>
  and no other file (no scatter, heatmap or bar image), and log exactly three warnings,
  for the scatter plot, the heatmap and the bar chart in this order, and no error.
\<close>

theorem charts_degenerate:
  "returns (charts env df f) \<and>
   ((\<forall>c. figure_fault env c = None \<and> draw_fault env c = None \<and> save_fault env c = None) \<and>
    length (filter (\<lambda>c. snd c = Numeric) (columns df)) = 1 \<and>
    length (filter (\<lambda>c. snd c = Object \<or> snd c = Category) (columns df)) = 0 \<longrightarrow>
      saved_files (events (charts env df f)) =
        [''relational_plot.png'', ''statistical_plot.png'', ''categorical_plot.png''] \<and>
      logged Warning (events (charts env df f)) =
        [''Insufficient numerical columns in '' @ f @ ''.'',
         ''Not enough numeric data in '' @ f @ ''.'',
         ''No categorical data in '' @ f @ ''.''] \<and>
      logged Error (events (charts env df f)) = [])"
proof (intro conjI impI)
  show "returns (charts env df f)" by (rule returns_charts)
next
  assume a: "(\<forall>c. figure_fault env c = None \<and> draw_fault env c = None \<and> save_fault env c = None) \<and>
    length (filter (\<lambda>c. snd c = Numeric) (columns df)) = 1 \<and>
    length (filter (\<lambda>c. snd c = Object \<or> snd c = Category) (columns df)) = 0"
  then have nf: "\<forall>c. figure_fault env c = None \<and> draw_fault env c = None \<and> save_fault env c = None"
    by blast
  from nf have s: "figure_fault env Scatter = None" "draw_fault env Scatter = None"
    "save_fault env Scatter = None" by simp_all
  from nf have b: "figure_fault env Bar = None" "draw_fault env Bar = None"
    "save_fault env Bar = None" by simp_all
  from nf have h: "figure_fault env Heatmap = None" "draw_fault env Heatmap = None"
    "save_fault env Heatmap = None" by simp_all
  have ev: "events (charts env df f) =
    [Saved ''relational_plot.png'', Log Info ''Relational plot saved successfully.'',
      Saved ''statistical_plot.png'', Log Info ''Statistical plot saved successfully.'',
      Saved ''categorical_plot.png'', Log Info ''Categorical plot saved successfully.'',
      Print (''Insufficient numerical columns in '' @ f @ ''.''),
      Log Warning (''Insufficient numerical columns in '' @ f @ ''.''),
      Print (''Not enough numeric data in '' @ f @ ''.''),
      Log Warning (''Not enough numeric data in '' @ f @ ''.''),
      Print (''No categorical data in '' @ f @ ''.''),
      Log Warning (''No categorical data in '' @ f @ ''.'')]"
    using a
    by (simp add: charts_no_fault [OF nf] scatter_plot_no_fault [OF s] bar_plot_no_fault [OF b]
        heatmap_no_fault [OF h] Let_def events_def)
  show "saved_files (events (charts env df f)) =
        [''relational_plot.png'', ''statistical_plot.png'', ''categorical_plot.png'']"
    unfolding ev by (simp add: saved_files_def)
  show "logged Warning (events (charts env df f)) =
        [''Insufficient numerical columns in '' @ f @ ''.'',
         ''Not enough numeric data in '' @ f @ ''.'',
         ''No categorical data in '' @ f @ ''.'']"
    unfolding ev by (simp add: logged_def)
  show "logged Error (events (charts env df f)) = []"
    unfolding ev by (simp add: logged_def)
qed

theorem charts_degenerate_witness:
  "length (filter (\<lambda>c. snd c = Numeric) (columns df_single)) = 1 \<and>
   length (filter (\<lambda>c. snd c = Object \<or> snd c = Category) (columns df_single)) = 0 \<and>
   saved_files (events (charts (quiet df_single) df_single ''data.csv'')) =
     [''relational_plot.png'', ''statistical_plot.png'', ''categorical_plot.png''] \<and>
   logged Warning (events (charts (quiet df_single) df_single ''data.csv'')) =
     [''Insufficient numerical columns in data.csv.'',
      ''Not enough numeric data in data.csv.'',
      ''No categorical data in data.csv.'']"
  using charts_degenerate [of "quiet df_single" df_single "''data.csv''"]
  by (simp add: quiet_def df_single_def)

text \<open>
  Claim C4 as it is stated (no file at all is produced) fails on the one-column frame
  \<open>df_single\<close>: three files are saved.
\<close>

theorem charts_degenerate_counterexample:
  "\<not> (\<forall>env df f.
        (\<forall>c. figure_fault env c = None \<and> draw_fault env c = None \<and> save_fault env c = None) \<and>
        length (filter (\<lambda>c. snd c = Numeric) (columns df)) = 1 \<and>
        length (filter (\<lambda>c. snd c = Object \<or> snd c = Category) (columns df)) = 0 \<longrightarrow>
          returns (charts env df f) \<and> saved_files (events (charts env df f)) = [] \<and>
          length (logged Warning (events (charts env df f))) = 3)"
proof
  assume h: "\<forall>env df f.
        (\<forall>c. figure_fault env c = None \<and> draw_fault env c = None \<and> save_fault env c = None) \<and>
        length (filter (\<lambda>c. snd c = Numeric) (columns df)) = 1 \<and>
        length (filter (\<lambda>c. snd c = Object \<or> snd c = Category) (columns df)) = 0 \<longrightarrow>
          returns (charts env df f) \<and> saved_files (events (charts env df f)) = [] \<and>
          length (logged Warning (events (charts env df f))) = 3"
  have nf: "\<forall>c. figure_fault (quiet df_single) c = None \<and> draw_fault (quiet df_single) c = None \<and>
      save_fault (quiet df_single) c = None"
    by (simp add: quiet_def)
  have "saved_files (events (charts (quiet df_single) df_single ''data.csv'')) = []"
    using h [rule_format, of "quiet df_single" df_single "''data.csv''"] nf
    by (simp add: df_single_def)
  moreover have "saved_files (events (charts (quiet df_single) df_single ''data.csv'')) =
     [''relational_plot.png'', ''statistical_plot.png'', ''categorical_plot.png'']"
    unfolding charts_no_fault [OF nf]
    by (simp add: saved_files_def events_def scatter_plot_def bar_plot_def heatmap_def
        numeric_names categorical_names numeric_count quiet_def df_single_def res_simps)
  ultimately show False by simp
qed

section \<open>Cleaning\<close>

lemma dropna_rows: "rows (dropna df) = filter (\<lambda>r. NA \<notin> set r) (rows df)"
proof -
  have c: "notna c = (c \<noteq> NA)" for c
    by (cases c) simp_all
  have n: "list_all notna r = (NA \<notin> set r)" for r
    by (induction r) (auto simp: c)
  have "map fst (filter snd (zip xs (map (list_all notna) xs))) = filter (\<lambda>r. NA \<notin> set r) xs" for xs
    by (induction xs) (simp_all add: n)
  then show ?thesis by (simp add: dropna_def)
qed

lemma dropna_columns: "columns (dropna df) = columns df"
  by (simp add: dropna_def)

lemma dropna_clean: "\<forall>r \<in> set (rows df). NA \<notin> set r \<Longrightarrow> dropna df = df"
proof -
  assume c: "\<forall>r \<in> set (rows df). NA \<notin> set r"
  have "rows (dropna df) = rows df"
    unfolding dropna_rows using c by (simp add: filter_id_conv)
  then show ?thesis by (simp add: dropna_def)
qed

lemma preprocessing_cases:
  "preprocessing env df =
     (case diag_fault env Describe df of
        Some e \<Rightarrow> ([Log Error (''Failed to preprocess data: '' @ exn_str e)], Inr None)
      | None \<Rightarrow>
     (case diag_fault env Head df of
        Some e \<Rightarrow> ([PrintDiag Describe, Log Error (''Failed to preprocess data: '' @ exn_str e)], Inr None)
      | None \<Rightarrow>
     (case diag_fault env Corr df of
        Some e \<Rightarrow> ([PrintDiag Describe, PrintDiag Head,
                    Log Error (''Failed to preprocess data: '' @ exn_str e)], Inr None)
      | None \<Rightarrow> ([PrintDiag Describe, PrintDiag Head, PrintDiag Corr,
                   Log Info ''Data preprocessing completed successfully.''],
                  Inr (Some (dropna df))))))"
  by (simp add: preprocessing_def res_simps split: option.splits)

text \<open>
  Claim C7. \<^verbatim>\<open>preprocessing\<close> never raises. When it returns a frame, the columns
  of that frame are the columns of the input, in the same order, and its rows are the
  rows of the input that hold no missing cell, in the same order. It returns a frame
  whenever none of the three diagnostics fails.
\<close>

theorem preprocessing_drops_rows_only:
  "returns (preprocessing env df) \<and>
   (outcome (preprocessing env df) = Inr (Some df') \<longrightarrow>
      columns df' = columns df \<and> rows df' = filter (\<lambda>r. NA \<notin> set r) (rows df)) \<and>
   ((\<forall>d. diag_fault env d df = None) \<longrightarrow>
      (\<exists>df'. outcome (preprocessing env df) = Inr (Some df')))"
  by (auto simp: preprocessing_cases dropna_rows dropna_columns split: option.splits)

theorem preprocessing_drops_rows_only_witness:
  "outcome (preprocessing (quiet df_mixed) df_mixed) =
     Inr (Some \<lparr>columns = [(''id'', Other), (''a'', Numeric), (''name'', Object), (''b'', Numeric)],
                rows = [[Txt ''True'', Num 1, Txt ''u'', Num 2],
                        [Txt ''True'', Num 3, Txt ''w'', Num 6]]\<rparr>) \<and>
   columns (dropna df_mixed) = columns df_mixed \<and>
   rows (dropna df_mixed) = filter (\<lambda>r. NA \<notin> set r) (rows df_mixed)"
proof -
  have o: "outcome (preprocessing (quiet df_mixed) df_mixed) = Inr (Some (dropna df_mixed))"
    by (simp add: preprocessing_cases quiet_def)
  have d: "dropna df_mixed =
      \<lparr>columns = [(''id'', Other), (''a'', Numeric), (''name'', Object), (''b'', Numeric)],
                rows = [[Txt ''True'', Num 1, Txt ''u'', Num 2],
                        [Txt ''True'', Num 3, Txt ''w'', Num 6]]\<rparr>"
    by (simp add: dropna_def df_mixed_def)
  show ?thesis
    using preprocessing_drops_rows_only [of "quiet df_mixed" df_mixed "dropna df_mixed"] o d
    by simp
qed

text \<open>
  Claim C9. Cleaning is idempotent: on a frame without a missing cell
  \<^verbatim>\<open>preprocessing\<close> returns the frame itself (when its diagnostics do not fail), and
  \<^verbatim>\<open>preprocessing\<close> applied to a frame it has returned gives that frame again.
\<close>

theorem preprocessing_idempotent:
  "((\<forall>r \<in> set (rows df). NA \<notin> set r) \<and> (\<forall>d. diag_fault env d df = None) \<longrightarrow>
      outcome (preprocessing env df) = Inr (Some df)) \<and>
   (outcome (preprocessing env df) = Inr (Some df') \<and> (\<forall>d. diag_fault env' d df' = None) \<longrightarrow>
      outcome (preprocessing env' df') = Inr (Some df'))"
proof (intro conjI impI)
  assume "(\<forall>r \<in> set (rows df). NA \<notin> set r) \<and> (\<forall>d. diag_fault env d df = None)"
  then show "outcome (preprocessing env df) = Inr (Some df)"
    by (simp add: preprocessing_cases dropna_clean)
next
  assume a: "outcome (preprocessing env df) = Inr (Some df') \<and> (\<forall>d. diag_fault env' d df' = None)"
  then have "df' = dropna df"
    by (auto simp: preprocessing_cases split: option.splits)
  then have "\<forall>r \<in> set (rows df'). NA \<notin> set r"
    by (simp add: dropna_rows)
  then have "dropna df' = df'" by (rule dropna_clean)
  with a show "outcome (preprocessing env' df') = Inr (Some df')"
    by (simp add: preprocessing_cases)
qed

theorem preprocessing_idempotent_witness:
  "outcome (preprocessing (quiet df_single) df_single) = Inr (Some df_single) \<and>
   outcome (preprocessing (quiet df_mixed) df_mixed) = Inr (Some (dropna df_mixed)) \<and>
   outcome (preprocessing (quiet df_single) (dropna df_mixed)) = Inr (Some (dropna df_mixed))"
proof -
  have o: "outcome (preprocessing (quiet df_mixed) df_mixed) = Inr (Some (dropna df_mixed))"
    by (simp add: preprocessing_cases quiet_def)
  show ?thesis
    using preprocessing_idempotent [of df_single "quiet df_single"]
      preprocessing_idempotent [of df_mixed "quiet df_mixed" "dropna df_mixed" "quiet df_single"] o
    by (simp add: quiet_def df_single_def)
qed

section \<open>A failed cleaning\<close>

text \<open>
  Claim C3, on the code. When \<^verbatim>\<open>preprocessing\<close> has caught a fault and returned None,
  \<^verbatim>\<open>main\<close> does not end the run by itself: line 305 reads an attribute of None and
  the AttributeError leaves \<^verbatim>\<open>main\<close> uncaught.
\<close>

theorem main_preprocessing_None:
  assumes "csv env = Inr df0" and "outcome (preprocessing env df0) = Inr None"
  shows "outcome (main env) =
    Inl (AttributeError (quoted ''NoneType'' @ '' object has no attribute '' @ quoted ''select_dtypes''))"
proof -
  from assms(2) obtain es where e: "preprocessing env df0 = (es, Inr None)"
    by (cases "preprocessing env df0") simp
  have "outcome (analyse env df0 ''data.csv'') =
    Inl (AttributeError (quoted ''NoneType'' @ '' object has no attribute '' @ quoted ''select_dtypes''))"
    by (simp add: analyse_def e raise_def)
  with assms(1) show ?thesis
    by (simp add: main_def emit_def outcome_def)
qed

theorem main_preprocessing_None_witness:
  "csv (stdout_broken df_mixed) = Inr df_mixed \<and>
   preprocessing (stdout_broken df_mixed) df_mixed =
     ([Log Error ''Failed to preprocess data: charmap codec cannot encode character''], Inr None) \<and>
   outcome (main (stdout_broken df_mixed)) =
     Inl (AttributeError (quoted ''NoneType'' @ '' object has no attribute '' @ quoted ''select_dtypes''))"
proof -
  have c: "csv (stdout_broken df_mixed) = Inr df_mixed"
    by (simp add: stdout_broken_def quiet_def)
  have p: "preprocessing (stdout_broken df_mixed) df_mixed =
     ([Log Error ''Failed to preprocess data: charmap codec cannot encode character''], Inr None)"
    by (simp add: preprocessing_cases stdout_broken_def quiet_def)
  have o: "outcome (preprocessing (stdout_broken df_mixed) df_mixed) = Inr None"
    by (simp add: p)
  show ?thesis using main_preprocessing_None [OF c o] c p by simp
qed

section \<open>The moments\<close>












section \<open>The choice of columns\<close>

lemma filter_first:
  "\<forall>c \<in> set pre. \<not> P c \<Longrightarrow> P x \<Longrightarrow> filter P (pre @ x # post) = x # filter P post"
  by (induction pre) simp_all

lemma report_header:
  "Print (''For the attribute '' @ x @ '':'') \<in>
     set (events (bind (statistical_analysis fp df x) (\<lambda>moments. writing moments x)))"
proof -
  have "returns (statistical_analysis fp df x)"
    by (simp add: statistical_analysis_def returns_try_except returns_seq ret_def)
  then obtain es m where sa: "statistical_analysis fp df x = (es, Inr m)"
    by (cases "statistical_analysis fp df x") (auto split: sum.splits)
  have "Print (''For the attribute '' @ x @ '':'') \<in> set (fst (writing m x))"
  proof (cases m)
    case None
    then show ?thesis by (simp add: writing_def subscript_def res_simps)
  next
    case (Some t)
    then show ?thesis by (cases t) (simp add: writing_Some)
  qed
  then show ?thesis by (simp add: sa)
qed

text \<open>
  Claim C8. The columns are chosen by position only. When no call into matplotlib or
  seaborn fails, \<^verbatim>\<open>scatter_plot\<close> draws the first numeric column against the
  second numeric column of the frame, and \<^verbatim>\<open>bar_plot\<close> counts the first object or
  category column. \<^verbatim>\<open>main\<close>, on a file that loads and whose diagnostics do not fail,
  computes and reports the moments of the first numeric column of the frame.
\<close>

theorem first_columns_chosen:
  "((\<forall>c. figure_fault env c = None \<and> draw_fault env c = None \<and> save_fault env c = None) \<and>
    columns df = pre @ (x, Numeric) # mid @ (y, Numeric) # post \<and>
    (\<forall>c \<in> set pre. snd c \<noteq> Numeric) \<and> (\<forall>c \<in> set mid. snd c \<noteq> Numeric) \<longrightarrow>
      scatter_plot env df f =
        ([Render Scatter [x, y], Saved (''scatter_'' @ f @ ''.png''),
          Log Info (''Scatter plot for '' @ f @ '' saved successfully.'')], Inr ())) \<and>
   ((\<forall>c. figure_fault env c = None \<and> draw_fault env c = None \<and> save_fault env c = None) \<and>
    columns df = pre @ (x, t) # post \<and> (t = Object \<or> t = Category) \<and>
    (\<forall>c \<in> set pre. snd c \<noteq> Object \<and> snd c \<noteq> Category) \<longrightarrow>
      bar_plot env df f =
        ([Render Bar [x], Saved (''bar_'' @ f @ ''.png''),
          Log Info (''Bar chart for '' @ f @ '' saved successfully.'')], Inr ())) \<and>
   (csv env = Inr df \<and> (\<forall>d. diag_fault env d df = None) \<and>
    columns df = pre @ (x, Numeric) # post \<and> (\<forall>c \<in> set pre. snd c \<noteq> Numeric) \<longrightarrow>
      main env =
        ([Log Info ''Data loaded from data.csv successfully.'',
          PrintDiag Describe, PrintDiag Head, PrintDiag Corr,
          Log Info ''Data preprocessing completed successfully.'']
         @ events (charts env (dropna df) ''data.csv'')
         @ events (bind (statistical_analysis (fpu env) (dropna df) x) (\<lambda>moments. writing moments x)),
         Inr ()))"
proof (intro conjI impI)
  assume a: "(\<forall>c. figure_fault env c = None \<and> draw_fault env c = None \<and> save_fault env c = None) \<and>
    columns df = pre @ (x, Numeric) # mid @ (y, Numeric) # post \<and>
    (\<forall>c \<in> set pre. snd c \<noteq> Numeric) \<and> (\<forall>c \<in> set mid. snd c \<noteq> Numeric)"
  then have s: "figure_fault env Scatter = None" "draw_fault env Scatter = None"
    "save_fault env Scatter = None" by simp_all
  from a have "filter (\<lambda>c. snd c = Numeric) (columns df) =
      (x, Numeric) # (y, Numeric) # filter (\<lambda>c. snd c = Numeric) post"
    by (simp add: filter_first)
  then show "scatter_plot env df f =
        ([Render Scatter [x, y], Saved (''scatter_'' @ f @ ''.png''),
          Log Info (''Scatter plot for '' @ f @ '' saved successfully.'')], Inr ())"
    by (simp add: scatter_plot_no_fault [OF s])
next
  assume a: "(\<forall>c. figure_fault env c = None \<and> draw_fault env c = None \<and> save_fault env c = None) \<and>
    columns df = pre @ (x, t) # post \<and> (t = Object \<or> t = Category) \<and>
    (\<forall>c \<in> set pre. snd c \<noteq> Object \<and> snd c \<noteq> Category)"
  then have b: "figure_fault env Bar = None" "draw_fault env Bar = None"
    "save_fault env Bar = None" by simp_all
  from a have "filter (\<lambda>c. snd c = Object \<or> snd c = Category) (columns df) =
      (x, t) # filter (\<lambda>c. snd c = Object \<or> snd c = Category) post"
    by (simp add: filter_first)
  then show "bar_plot env df f =
        ([Render Bar [x], Saved (''bar_'' @ f @ ''.png''),
          Log Info (''Bar chart for '' @ f @ '' saved successfully.'')], Inr ())"
    by (simp add: bar_plot_no_fault [OF b])
next
  assume a: "csv env = Inr df \<and> (\<forall>d. diag_fault env d df = None) \<and>
    columns df = pre @ (x, Numeric) # post \<and> (\<forall>c \<in> set pre. snd c \<noteq> Numeric)"
  then have p: "preprocessing env df =
      ([PrintDiag Describe, PrintDiag Head, PrintDiag Corr,
        Log Info ''Data preprocessing completed successfully.''], Inr (Some (dropna df)))"
    by (simp add: preprocessing_cases)
  from a have n: "column_names (select_dtypes is_number (dropna df)) =
      x # map fst (filter (\<lambda>c. snd c = Numeric) post)"
    by (simp add: numeric_names dropna_columns filter_first)
  have "returns (charts env (dropna df) ''data.csv'')" by (rule returns_charts)
  then obtain ces where c: "charts env (dropna df) ''data.csv'' = (ces, Inr ())"
    by (cases "charts env (dropna df) ''data.csv''") (auto split: sum.splits)
  have "returns (statistical_analysis (fpu env) (dropna df) x)"
    by (simp add: statistical_analysis_def returns_try_except returns_seq ret_def)
  then obtain es m where sa: "statistical_analysis (fpu env) (dropna df) x = (es, Inr m)"
    by (cases "statistical_analysis (fpu env) (dropna df) x") (auto split: sum.splits)
  have "returns (writing m x)"
    by (simp add: writing_def returns_try_except)
  then obtain wes where w: "writing m x = (wes, Inr ())"
    by (cases "writing m x") (auto split: sum.splits)
  have an: "analyse env df ''data.csv'' =
     ([PrintDiag Describe, PrintDiag Head, PrintDiag Corr,
        Log Info ''Data preprocessing completed successfully.'']
      @ ces @ es @ wes, Inr ())"
    unfolding analyse_def p bind_Inr
    by (simp add: n Let_def c sa w)
  show "main env =
        ([Log Info ''Data loaded from data.csv successfully.'',
          PrintDiag Describe, PrintDiag Head, PrintDiag Corr,
          Log Info ''Data preprocessing completed successfully.'']
         @ events (charts env (dropna df) ''data.csv'')
         @ events (bind (statistical_analysis (fpu env) (dropna df) x) (\<lambda>moments. writing moments x)),
         Inr ())"
    using a by (simp add: main_def an emit_def c sa w)
qed

theorem first_columns_chosen_witness:
  "scatter_plot (quiet df_mixed) df_mixed ''data.csv'' =
     ([Render Scatter [''a'', ''b''], Saved ''scatter_data.csv.png'',
       Log Info ''Scatter plot for data.csv saved successfully.''], Inr ()) \<and>
   bar_plot (quiet df_mixed) df_mixed ''data.csv'' =
     ([Render Bar [''name''], Saved ''bar_data.csv.png'',
       Log Info ''Bar chart for data.csv saved successfully.''], Inr ()) \<and>
   Print ''For the attribute a:'' \<in> set (events (main (quiet df_mixed)))"
proof -
  have q: "\<forall>c. figure_fault (quiet df_mixed) c = None \<and> draw_fault (quiet df_mixed) c = None \<and>
      save_fault (quiet df_mixed) c = None"
    by (simp add: quiet_def)
  have s: "scatter_plot (quiet df_mixed) df_mixed ''data.csv'' =
     ([Render Scatter [''a'', ''b''], Saved ''scatter_data.csv.png'',
       Log Info ''Scatter plot for data.csv saved successfully.''], Inr ())"
    using first_columns_chosen [of "quiet df_mixed" df_mixed "[(''id'', Other)]" "''a''"
        "[(''name'', Object)]" "''b''" "[]" "''data.csv''"] q
    by (simp add: df_mixed_def)
  have b: "bar_plot (quiet df_mixed) df_mixed ''data.csv'' =
     ([Render Bar [''name''], Saved ''bar_data.csv.png'',
       Log Info ''Bar chart for data.csv saved successfully.''], Inr ())"
    using first_columns_chosen [of "quiet df_mixed" df_mixed "[(''id'', Other), (''a'', Numeric)]"
        "''name''" _ _ "[(''b'', Numeric)]" "''data.csv''" Object] q
    by (simp add: df_mixed_def)
  have c: "csv (quiet df_mixed) = Inr df_mixed \<and> (\<forall>d. diag_fault (quiet df_mixed) d df_mixed = None)"
    by (simp add: quiet_def)
  have "main (quiet df_mixed) =
        ([Log Info ''Data loaded from data.csv successfully.'',
          PrintDiag Describe, PrintDiag Head, PrintDiag Corr,
          Log Info ''Data preprocessing completed successfully.'']
         @ events (charts (quiet df_mixed) (dropna df_mixed) ''data.csv'')
         @ events (bind (statistical_analysis (fpu (quiet df_mixed)) (dropna df_mixed) ''a'')
                     (\<lambda>moments. writing moments ''a'')),
         Inr ())"
    using first_columns_chosen [of "quiet df_mixed" df_mixed "[(''id'', Other)]" "''a''"
        _ _ "[(''name'', Object), (''b'', Numeric)]"] c
    by (simp add: df_mixed_def)
  then have m: "Print ''For the attribute a:'' \<in> set (events (main (quiet df_mixed)))"
    using report_header [of "''a''" "fpu (quiet df_mixed)" "dropna df_mixed"] by simp
  from s b m show ?thesis by blast
qed

end
